theory Spec2Isabelle
  imports Main
begin

section \<open>The underlying client, as the accessors see it\<close>

text \<open>
  The library forwards every read and write to the database client
  (\<^verbatim>\<open>firebase-admin/firestore\<close>), which is not part of the repository. The client
  is therefore a parameter of every function below: a record of answers, one for
  each operation the library invokes on it. An answer is either a value of the
  client's error type \<open>'e\<close> (the promise rejects, or the call throws) or the value
  the call resolves to. The type \<open>'d\<close> is the record type \<open>T\<close> of a collection.

  Building a reference or a query (\<^verbatim>\<open>ref.doc(id)\<close>, \<^verbatim>\<open>.select(...)\<close>,
  \<^verbatim>\<open>.limit(1)\<close>) performs no I/O and is kept symbolic. When the client rejects an
  argument already while building, the exception is raised inside the same
  \<^verbatim>\<open>async\<close> function and rejects the same promise as a failed read would, so it
  is part of the answer to the read of that reference or query.
\<close>

record CollectionReference =
  path :: string

record DocumentReference =
  parent :: CollectionReference
  documentPath :: string

text \<open>\<^verbatim>\<open>ref.doc(documentId)\<close>\<close>

definition doc :: "CollectionReference \<Rightarrow> string \<Rightarrow> DocumentReference" where
  "doc ref documentId = \<lparr>parent = ref, documentPath = documentId\<rparr>"

text \<open>
  A query is the chain of builder calls that produced it. \<open>Where\<close> stands for the
  untyped filter calls a \<^verbatim>\<open>queryFn\<close> may make (here: equality of a field with a
  value); the library itself only ever adds \<open>Select\<close> and \<open>Limit\<close>.
\<close>

datatype Query =
    Coll CollectionReference
  | Where Query string string
  | Select Query "string list"
  | Limit Query nat

datatype Transaction = Transaction nat

record WriteResult =
  writeTime :: nat

text \<open>
  A \<^verbatim>\<open>DocumentSnapshot\<close>: \<^verbatim>\<open>doc.ref\<close>, \<^verbatim>\<open>doc.id\<close>, \<^verbatim>\<open>doc.exists\<close> and the result of
  \<^verbatim>\<open>doc.data()\<close>, which is \<^verbatim>\<open>undefined\<close> (\<open>None\<close>) or the fields. The non-null
  assertion \<^verbatim>\<open>doc.data()!\<close> of the source is erased at run time, so the value
  read is the optional one.
\<close>

record 'd DocumentSnapshot =
  snap_ref :: DocumentReference
  snap_id :: string
  snap_exists :: bool
  snap_data :: "'d option"

text \<open>
  A \<^verbatim>\<open>QuerySnapshot\<close> holds its documents in query order; the client declares
  \<^verbatim>\<open>empty\<close> as "true if there are no documents in the QuerySnapshot".
\<close>

record 'd QuerySnapshot =
  docs :: "'d DocumentSnapshot list"

definition empty :: "'d QuerySnapshot \<Rightarrow> bool" where
  "empty snapshot = (docs snapshot = [])"

record ('e, 'd) Client =
  doc_get :: "DocumentReference \<Rightarrow> 'e + 'd DocumentSnapshot"
  tx_doc_get :: "Transaction \<Rightarrow> DocumentReference \<Rightarrow> 'e + 'd DocumentSnapshot"
  query_get :: "Query \<Rightarrow> 'e + 'd QuerySnapshot"
  tx_query_get :: "Transaction \<Rightarrow> Query \<Rightarrow> 'e + 'd QuerySnapshot"
  doc_update :: "DocumentReference \<Rightarrow> 'd \<Rightarrow> 'e + WriteResult"
  tx_update :: "Transaction \<Rightarrow> DocumentReference \<Rightarrow> 'd \<Rightarrow> 'e option"

text \<open>
  Every operation invoked on the client is recorded, in order, in a trace of
  requests. The trace is the only state the library has.
\<close>

datatype 'd request =
    DocGet DocumentReference
  | TxDocGet Transaction DocumentReference
  | QueryGet Query
  | TxQueryGet Transaction Query
  | DocUpdate DocumentReference 'd
  | TxUpdate Transaction DocumentReference 'd

text \<open>
  What an accessor can throw: the failure of its own precondition check, or a
  failure of the client, carried as the client raised it.
\<close>

datatype 'e failure =
    InvariantFailed string
  | ClientError 'e

type_synonym ('e, 'd, 'a) io = "'d request list \<Rightarrow> ('e failure + 'a) \<times> 'd request list"

definition io_return :: "'a \<Rightarrow> ('e, 'd, 'a) io" where
  "io_return a calls = (Inr a, calls)"

definition io_throw :: "'e failure \<Rightarrow> ('e, 'd, 'a) io" where
  "io_throw x calls = (Inl x, calls)"

definition io_bind :: "('e, 'd, 'a) io \<Rightarrow> ('a \<Rightarrow> ('e, 'd, 'b) io) \<Rightarrow> ('e, 'd, 'b) io" where
  "io_bind m f calls =
     (case m calls of
        (Inl x, calls') \<Rightarrow> (Inl x, calls')
      | (Inr a, calls') \<Rightarrow> f a calls')"

text \<open>
  \<^verbatim>\<open>await\<close> of a client call: the request is recorded, a rejection is rethrown as
  it is, a resolved value is handed on.
\<close>

definition await :: "'d request \<Rightarrow> 'e + 'a \<Rightarrow> ('e, 'd, 'a) io" where
  "await rq answer calls =
     (case answer of
        Inl e \<Rightarrow> (Inl (ClientError e), calls @ [rq])
      | Inr a \<Rightarrow> (Inr a, calls @ [rq]))"

section \<open>Utilities\<close>

text \<open>
  Modelled from the spec: \<^verbatim>\<open>invariant\<close> of \<^verbatim>\<open>~/utils\<close> is not among the source files.
  The spec describes the check of the required fetch as a precondition violation
  that "fails immediately and loudly" and "never silently substitutes a default":
  when the condition is false the call throws, with the message it was given, and
  otherwise it returns nothing.
\<close>

definition invariant :: "bool \<Rightarrow> string \<Rightarrow> ('e, 'd, unit) io" where
  "invariant condition message =
     (if condition then io_return () else io_throw (InvariantFailed message))"

section \<open>Single-document accessors\<close>

text \<open>
  The optional argument \<^verbatim>\<open>documentId?: string | null\<close>, and the test
  \<^verbatim>\<open>!documentId\<close> on it: \<^verbatim>\<open>undefined\<close>, \<^verbatim>\<open>null\<close> and the empty string are falsy; past
  the test the argument is a non-empty string.
\<close>

datatype MaybeId = IdUndefined | IdNull | IdString string

fun truthy :: "MaybeId \<Rightarrow> string option" where
  "truthy IdUndefined = None"
| "truthy IdNull = None"
| "truthy (IdString s) = (if s = [] then None else Some s)"

definition getDocumentData ::
  "('e, 'd) Client \<Rightarrow> CollectionReference \<Rightarrow> string \<Rightarrow> ('e, 'd, 'd option) io" where
  "getDocumentData client ref documentId =
     io_bind (await (DocGet (doc ref documentId)) (doc_get client (doc ref documentId)))
       (\<lambda>d.
     io_bind (invariant (snap_exists d)
                (''No document available at '' @ path ref @ ''/'' @ documentId))
       (\<lambda>_.
     io_return (snap_data d)))"

definition getDocumentDataMaybe ::
  "('e, 'd) Client \<Rightarrow> CollectionReference \<Rightarrow> MaybeId \<Rightarrow> ('e, 'd, 'd option) io" where
  "getDocumentDataMaybe client ref documentId =
     (case truthy documentId of
        None \<Rightarrow> io_return None
      | Some documentId' \<Rightarrow>
          io_bind (await (DocGet (doc ref documentId')) (doc_get client (doc ref documentId')))
            (\<lambda>d.
          if \<not> snap_exists d then io_return None
          else io_return (snap_data d)))"

definition getDocumentDataInTransaction ::
  "('e, 'd) Client \<Rightarrow> Transaction \<Rightarrow> CollectionReference \<Rightarrow> string \<Rightarrow> ('e, 'd, 'd option) io" where
  "getDocumentDataInTransaction client tx ref documentId =
     io_bind (await (TxDocGet tx (doc ref documentId)) (tx_doc_get client tx (doc ref documentId)))
       (\<lambda>d.
     io_bind (invariant (snap_exists d)
                (''No document available at '' @ path ref @ ''/'' @ documentId))
       (\<lambda>_.
     io_return (snap_data d)))"

definition getDocumentDataInTransactionMaybe ::
  "('e, 'd) Client \<Rightarrow> Transaction \<Rightarrow> CollectionReference \<Rightarrow> MaybeId \<Rightarrow> ('e, 'd, 'd option) io" where
  "getDocumentDataInTransactionMaybe client tx ref documentId =
     (case truthy documentId of
        None \<Rightarrow> io_return None
      | Some documentId' \<Rightarrow>
          io_bind (await (TxDocGet tx (doc ref documentId')) (tx_doc_get client tx (doc ref documentId')))
            (\<lambda>d.
          if \<not> snap_exists d then io_return None
          else io_return (snap_data d)))"

section \<open>Document wrappers\<close>

text \<open>
  The wrapper types of the source: \<^verbatim>\<open>FsDocument<T>\<close> is \<^verbatim>\<open>{id, data}\<close>, and the two
  mutable wrappers extend it with \<^verbatim>\<open>ref\<close>, \<^verbatim>\<open>update\<close> and \<^verbatim>\<open>updateWithPartial\<close>. The
  \<^verbatim>\<open>update\<close> of \<^verbatim>\<open>FsMutableDocument\<close> returns \<^verbatim>\<open>Promise<WriteResult>\<close>, that of
  \<^verbatim>\<open>FsMutableDocumentFromTransaction\<close> returns the \<^verbatim>\<open>Transaction\<close>.
\<close>

record 'd FsDocument =
  fs_id :: string
  fs_data :: "'d option"

record ('e, 'd) FsMutableDocument = "'d FsDocument" +
  fs_ref :: DocumentReference
  fs_update :: "'d \<Rightarrow> ('e, 'd) Client \<Rightarrow> ('e, 'd, WriteResult) io"
  fs_updateWithPartial :: "'d \<Rightarrow> ('e, 'd) Client \<Rightarrow> ('e, 'd, WriteResult) io"

record ('e, 'd) FsMutableDocumentFromTransaction = "'d FsDocument" +
  ft_ref :: DocumentReference
  ft_update :: "'d \<Rightarrow> ('e, 'd) Client \<Rightarrow> ('e, 'd, Transaction) io"
  ft_updateWithPartial :: "'d \<Rightarrow> ('e, 'd) Client \<Rightarrow> ('e, 'd, Transaction) io"

text \<open>
  \<^verbatim>\<open>tx.update(ref, data)\<close> is synchronous: it throws when the client rejects the
  arguments, and otherwise returns the transaction it was called on.
\<close>

definition tx_update_call ::
  "('e, 'd) Client \<Rightarrow> Transaction \<Rightarrow> DocumentReference \<Rightarrow> 'd \<Rightarrow> ('e, 'd, Transaction) io" where
  "tx_update_call client tx r patch =
     await (TxUpdate tx r patch)
       (case tx_update client tx r patch of None \<Rightarrow> Inr tx | Some e \<Rightarrow> Inl e)"

text \<open>
  Modelled from the spec: \<^verbatim>\<open>makeMutableDocument\<close> of \<^verbatim>\<open>~/documents\<close> is not among the
  source files. Per the spec (4.1), the wrapper of a fetched snapshot carries the
  snapshot's id and data and a write handle bound to the originating location;
  \<^verbatim>\<open>update\<close> and \<^verbatim>\<open>updateWithPartial\<close> perform the write immediately when no
  transaction is bound, and a write occurs only when one of them is invoked, never
  at construction.
\<close>

definition makeMutableDocument :: "'d DocumentSnapshot \<Rightarrow> ('e, 'd) FsMutableDocument" where
  "makeMutableDocument d =
     \<lparr>fs_id = snap_id d, fs_data = snap_data d, fs_ref = snap_ref d,
      fs_update = (\<lambda>patch client.
        await (DocUpdate (snap_ref d) patch) (doc_update client (snap_ref d) patch)),
      fs_updateWithPartial = (\<lambda>patch client.
        await (DocUpdate (snap_ref d) patch) (doc_update client (snap_ref d) patch))\<rparr>"

text \<open>
  Modelled from the spec: \<^verbatim>\<open>makeMutableDocumentInTransaction\<close> of \<^verbatim>\<open>~/documents\<close> is
  not among the source files. Per the spec (4.1), when a transaction is bound the
  wrapper's \<^verbatim>\<open>update\<close> and \<^verbatim>\<open>updateWithPartial\<close> stage the write against the bound
  transaction; per the type in the source they return the \<^verbatim>\<open>Transaction\<close>.
\<close>

definition makeMutableDocumentInTransaction ::
  "'d DocumentSnapshot \<Rightarrow> Transaction \<Rightarrow> ('e, 'd) FsMutableDocumentFromTransaction" where
  "makeMutableDocumentInTransaction d tx =
     \<lparr>fs_id = snap_id d, fs_data = snap_data d, ft_ref = snap_ref d,
      ft_update = (\<lambda>patch client. tx_update_call client tx (snap_ref d) patch),
      ft_updateWithPartial = (\<lambda>patch client. tx_update_call client tx (snap_ref d) patch)\<rparr>"

text \<open>
  A direct write is a request that writes to a document outside any transaction
  (\<^verbatim>\<open>ref.update(data)\<close>).
\<close>

fun is_direct_write :: "'d request \<Rightarrow> bool" where
  "is_direct_write (DocUpdate _ _) = True"
| "is_direct_write _ = False"

section \<open>Query accessors\<close>

text \<open>
  \<^verbatim>\<open>options: { select?: S } = {}\<close>. The test \<^verbatim>\<open>options.select ? ... : ...\<close> is on an
  array or \<^verbatim>\<open>undefined\<close>; every array, the empty one too, is truthy. The read
  \<^verbatim>\<open>snapshot.docs[0]\<close> happens only past the test of \<^verbatim>\<open>snapshot.empty\<close>, where the
  list has a first element (\<open>first_in_range\<close> below).
\<close>

record Options =
  select :: "string list option"

definition finalQuery :: "Query \<Rightarrow> Options \<Rightarrow> Query" where
  "finalQuery q options =
     (case select options of
        Some selected \<Rightarrow> Select q selected
      | None \<Rightarrow> q)"

definition getFirstDocument ::
  "('e, 'd) Client \<Rightarrow> CollectionReference \<Rightarrow> (CollectionReference \<Rightarrow> Query) \<Rightarrow> Options \<Rightarrow>
     ('e, 'd, ('e, 'd) FsMutableDocument option) io" where
  "getFirstDocument client ref queryFn options =
     io_bind (await (QueryGet (Limit (finalQuery (queryFn ref) options) 1))
                (query_get client (Limit (finalQuery (queryFn ref) options) 1)))
       (\<lambda>snapshot.
     if empty snapshot then io_return None
     else io_return (Some (makeMutableDocument (docs snapshot ! 0))))"

text \<open>
  The transactional variant accepts a collection reference or a collection group;
  \<open>'r\<close> is whichever the caller passes, and \<^verbatim>\<open>queryFn\<close> is applied to it.
\<close>

definition getFirstDocumentInTransaction ::
  "('e, 'd) Client \<Rightarrow> Transaction \<Rightarrow> 'r \<Rightarrow> ('r \<Rightarrow> Query) \<Rightarrow> Options \<Rightarrow>
     ('e, 'd, ('e, 'd) FsMutableDocumentFromTransaction option) io" where
  "getFirstDocumentInTransaction client tx ref queryFn options =
     io_bind (await (TxQueryGet tx (Limit (finalQuery (queryFn ref) options) 1))
                (tx_query_get client tx (Limit (finalQuery (queryFn ref) options) 1)))
       (\<lambda>snapshot.
     if empty snapshot then io_return None
     else io_return (Some (makeMutableDocumentInTransaction (docs snapshot ! 0) tx)))"

text \<open>The data of the wrapper that a first-document fetch returned, if it returned one.\<close>

definition returned_data ::
  "('e failure + ('e, 'd) FsMutableDocument option) \<times> 'd request list \<Rightarrow> 'd option" where
  "returned_data result =
     (case fst result of
        Inr (Some document) \<Rightarrow> fs_data document
      | _ \<Rightarrow> None)"

section \<open>Plain objects\<close>

text \<open>
  A JavaScript value, as far as \<^verbatim>\<open>isPlainObject\<close> inspects it: what \<^verbatim>\<open>typeof\<close>
  answers and, for an object or a function, its prototype (\<open>None\<close> is \<^verbatim>\<open>null\<close>).
\<close>

datatype prototype =
    ObjectPrototype
  | ArrayPrototype
  | FunctionPrototype
  | ClassPrototype string
  | WrapperPrototype string

datatype js_value =
    JUndefined
  | JNull
  | JBoolean bool
  | JNumber int
  | JBigInt int
  | JString string
  | JSymbol string
  | JFunction "prototype option"
  | JObject "prototype option"

datatype js_error = TypeError

fun typeof :: "js_value \<Rightarrow> string" where
  "typeof JUndefined = ''undefined''"
| "typeof JNull = ''object''"
| "typeof (JBoolean _) = ''boolean''"
| "typeof (JNumber _) = ''number''"
| "typeof (JBigInt _) = ''bigint''"
| "typeof (JString _) = ''string''"
| "typeof (JSymbol _) = ''symbol''"
| "typeof (JFunction _) = ''function''"
| "typeof (JObject _) = ''object''"

text \<open>
  \<^verbatim>\<open>Object.getPrototypeOf\<close>: throws on \<^verbatim>\<open>undefined\<close> and \<^verbatim>\<open>null\<close>, answers the wrapper's
  prototype for a primitive and the prototype slot for an object or a function.
\<close>

fun getPrototypeOf :: "js_value \<Rightarrow> js_error + prototype option" where
  "getPrototypeOf JUndefined = Inl TypeError"
| "getPrototypeOf JNull = Inl TypeError"
| "getPrototypeOf (JBoolean _) = Inr (Some (WrapperPrototype ''Boolean''))"
| "getPrototypeOf (JNumber _) = Inr (Some (WrapperPrototype ''Number''))"
| "getPrototypeOf (JBigInt _) = Inr (Some (WrapperPrototype ''BigInt''))"
| "getPrototypeOf (JString _) = Inr (Some (WrapperPrototype ''String''))"
| "getPrototypeOf (JSymbol _) = Inr (Some (WrapperPrototype ''Symbol''))"
| "getPrototypeOf (JFunction p) = Inr p"
| "getPrototypeOf (JObject p) = Inr p"

definition isPlainObject :: "js_value \<Rightarrow> js_error + bool" where
  "isPlainObject v =
     (if typeof v \<noteq> ''object'' \<or> v = JNull then Inr False
      else case getPrototypeOf v of
        Inl e \<Rightarrow> Inl e
      | Inr proto \<Rightarrow> Inr (proto = Some ObjectPrototype \<or> proto = None))"

text \<open>The values the claim names, as the language creates them.\<close>

definition object_literal :: js_value where
  "object_literal = JObject (Some ObjectPrototype)"

definition array_literal :: js_value where
  "array_literal = JObject (Some ArrayPrototype)"

definition function_value :: js_value where
  "function_value = JFunction (Some FunctionPrototype)"

definition new_instance :: "string \<Rightarrow> js_value" where
  "new_instance c = JObject (Some (ClassPrototype c))"

definition Object_create :: "prototype option \<Rightarrow> js_value" where
  "Object_create p = JObject p"

section \<open>A reference client\<close>

text \<open>
  A client over a finite store of documents, each a list of fields with string
  values, in the order the store returns them. It answers reads the way the
  database client documents them: a document read answers a snapshot that exists
  exactly when the document is stored, an empty document id is rejected,
  \<^verbatim>\<open>limit(n)\<close> keeps the first \<open>n\<close> results and \<^verbatim>\<open>select(...)\<close> keeps, of each
  result, the named fields that the document has. Builder calls are interpreted in
  the order the library makes them: the filters of \<^verbatim>\<open>queryFn\<close>, then \<^verbatim>\<open>select\<close>, then
  \<^verbatim>\<open>limit\<close>. It serves as the concrete client at which the theorems are instantiated.
\<close>

type_synonym fields = "(string \<times> string) list"

type_synonym store = "(DocumentReference \<times> fields) list"

definition snapshot_of :: "store \<Rightarrow> DocumentReference \<Rightarrow> fields DocumentSnapshot" where
  "snapshot_of st r =
     \<lparr>snap_ref = r, snap_id = documentPath r,
      snap_exists = (map_of st r \<noteq> None), snap_data = map_of st r\<rparr>"

definition keys :: "fields \<Rightarrow> string set" where
  "keys fs = set (map fst fs)"

definition project :: "string list \<Rightarrow> fields \<Rightarrow> fields" where
  "project S fs = filter (\<lambda>kv. fst kv \<in> set S) fs"

definition projected :: "string list \<Rightarrow> fields DocumentSnapshot \<Rightarrow> fields DocumentSnapshot" where
  "projected S d = d\<lparr>snap_data := map_option (project S) (snap_data d)\<rparr>"

fun run_query :: "store \<Rightarrow> Query \<Rightarrow> fields DocumentSnapshot list" where
  "run_query st (Coll ref) =
     map (\<lambda>rf. snapshot_of st (fst rf)) (filter (\<lambda>rf. parent (fst rf) = ref) st)"
| "run_query st (Where q k v) =
     filter (\<lambda>d. case snap_data d of None \<Rightarrow> False | Some fs \<Rightarrow> map_of fs k = Some v)
       (run_query st q)"
| "run_query st (Select q S) = map (projected S) (run_query st q)"
| "run_query st (Limit q n) = take n (run_query st q)"

definition read_document :: "store \<Rightarrow> DocumentReference \<Rightarrow> string + fields DocumentSnapshot" where
  "read_document st r =
     (if documentPath r = [] then Inl ''INVALID_ARGUMENT'' else Inr (snapshot_of st r))"

definition memory_client :: "store \<Rightarrow> (string, fields) Client" where
  "memory_client st =
     \<lparr>doc_get = read_document st,
      tx_doc_get = (\<lambda>tx. read_document st),
      query_get = (\<lambda>q. Inr \<lparr>docs = run_query st q\<rparr>),
      tx_query_get = (\<lambda>tx q. Inr \<lparr>docs = run_query st q\<rparr>),
      doc_update = (\<lambda>r patch.
        if map_of st r = None then Inl ''NOT_FOUND'' else Inr \<lparr>writeTime = 0\<rparr>),
      tx_update = (\<lambda>tx r patch. None)\<rparr>"

text \<open>A client that fails every call with the same error.\<close>

definition failing_client :: "'e \<Rightarrow> ('e, 'd) Client" where
  "failing_client e =
     \<lparr>doc_get = (\<lambda>r. Inl e),
      tx_doc_get = (\<lambda>tx r. Inl e),
      query_get = (\<lambda>q. Inl e),
      tx_query_get = (\<lambda>tx q. Inl e),
      doc_update = (\<lambda>r patch. Inl e),
      tx_update = (\<lambda>tx r patch. Some e)\<rparr>"

text \<open>A store with two books; the first has no \<^verbatim>\<open>title\<close> field.\<close>

definition books :: CollectionReference where
  "books = \<lparr>path = ''books''\<rparr>"

definition library :: store where
  "library =
     [(doc books ''b1'', [(''author'', ''Anon''), (''year'', ''1500'')]),
      (doc books ''b2'', [(''author'', ''Eco''), (''title'', ''Baudolino''), (''year'', ''2000'')])]"

section \<open>Properties\<close>

lemmas io_defs = io_return_def io_throw_def io_bind_def await_def invariant_def

lemmas library_defs =
  memory_client_def read_document_def snapshot_of_def doc_def library_def books_def
  projected_def project_def

subsection \<open>Each accessor in one equation\<close>

text \<open>
  What an accessor returns, by the client's answer to its one read, and the trace
  it leaves.
\<close>

lemma getDocumentData_result:
  "getDocumentData client ref documentId calls =
     (case doc_get client (doc ref documentId) of
        Inl e \<Rightarrow> Inl (ClientError e)
      | Inr d \<Rightarrow>
          if snap_exists d then Inr (snap_data d)
          else Inl (InvariantFailed (''No document available at '' @ path ref @ ''/'' @ documentId)),
      calls @ [DocGet (doc ref documentId)])"
  by (simp add: getDocumentData_def io_defs split: sum.splits)

lemma getDocumentDataInTransaction_result:
  "getDocumentDataInTransaction client tx ref documentId calls =
     (case tx_doc_get client tx (doc ref documentId) of
        Inl e \<Rightarrow> Inl (ClientError e)
      | Inr d \<Rightarrow>
          if snap_exists d then Inr (snap_data d)
          else Inl (InvariantFailed (''No document available at '' @ path ref @ ''/'' @ documentId)),
      calls @ [TxDocGet tx (doc ref documentId)])"
  by (simp add: getDocumentDataInTransaction_def io_defs split: sum.splits)

lemma getDocumentDataMaybe_result:
  "getDocumentDataMaybe client ref documentId calls =
     (case truthy documentId of
        None \<Rightarrow> (Inr None, calls)
      | Some s \<Rightarrow>
          (case doc_get client (doc ref s) of
             Inl e \<Rightarrow> Inl (ClientError e)
           | Inr d \<Rightarrow> if snap_exists d then Inr (snap_data d) else Inr None,
           calls @ [DocGet (doc ref s)]))"
  by (simp add: getDocumentDataMaybe_def io_defs split: sum.splits option.splits)

lemma getDocumentDataInTransactionMaybe_result:
  "getDocumentDataInTransactionMaybe client tx ref documentId calls =
     (case truthy documentId of
        None \<Rightarrow> (Inr None, calls)
      | Some s \<Rightarrow>
          (case tx_doc_get client tx (doc ref s) of
             Inl e \<Rightarrow> Inl (ClientError e)
           | Inr d \<Rightarrow> if snap_exists d then Inr (snap_data d) else Inr None,
           calls @ [TxDocGet tx (doc ref s)]))"
  by (simp add: getDocumentDataInTransactionMaybe_def io_defs split: sum.splits option.splits)

lemma getFirstDocument_result:
  "getFirstDocument client ref queryFn options calls =
     (case query_get client (Limit (finalQuery (queryFn ref) options) 1) of
        Inl e \<Rightarrow> Inl (ClientError e)
      | Inr snapshot \<Rightarrow>
          (case docs snapshot of
             [] \<Rightarrow> Inr None
           | d # _ \<Rightarrow> Inr (Some (makeMutableDocument d))),
      calls @ [QueryGet (Limit (finalQuery (queryFn ref) options) 1)])"
  by (simp add: getFirstDocument_def io_defs empty_def split: sum.splits list.splits)

lemma getFirstDocumentInTransaction_result:
  "getFirstDocumentInTransaction client tx ref queryFn options calls =
     (case tx_query_get client tx (Limit (finalQuery (queryFn ref) options) 1) of
        Inl e \<Rightarrow> Inl (ClientError e)
      | Inr snapshot \<Rightarrow>
          (case docs snapshot of
             [] \<Rightarrow> Inr None
           | d # _ \<Rightarrow> Inr (Some (makeMutableDocumentInTransaction d tx))),
      calls @ [TxQueryGet tx (Limit (finalQuery (queryFn ref) options) 1)])"
  by (simp add: getFirstDocumentInTransaction_def io_defs empty_def split: sum.splits list.splits)

text \<open>Past the test of \<^verbatim>\<open>snapshot.empty\<close>, index 0 is in range.\<close>

lemma first_in_range: "\<not> empty snapshot \<Longrightarrow> 0 < length (docs snapshot)"
  by (simp add: empty_def)

text \<open>The wrapper of a snapshot carries the snapshot's id, data and reference.\<close>

lemma makeMutableDocument_fields:
  "fs_id (makeMutableDocument d :: ('e, 'd) FsMutableDocument) = snap_id d"
  "fs_data (makeMutableDocument d :: ('e, 'd) FsMutableDocument) = snap_data d"
  "fs_ref (makeMutableDocument d :: ('e, 'd) FsMutableDocument) = snap_ref d"
  by (simp_all add: makeMutableDocument_def)

text \<open>
  Without a transaction, \<^verbatim>\<open>update\<close> issues the write to the document at once.
\<close>

lemma direct_update_writes:
  "fs_update (makeMutableDocument d) patch client calls =
     (case doc_update client (snap_ref d) patch of
        Inl e \<Rightarrow> Inl (ClientError e)
      | Inr w \<Rightarrow> Inr w,
      calls @ [DocUpdate (snap_ref d) patch])"
  by (simp add: makeMutableDocument_def await_def split: sum.splits)

text \<open>A projection keeps the selected keys that the document has.\<close>

lemma keys_project: "keys (project S fs) = keys fs \<inter> set S"
  by (auto simp: keys_def project_def)

subsection \<open>Required fetch of a missing document\<close>

text \<open>
  C1. When the client answers the read of \<^verbatim>\<open>ref.doc(documentId)\<close> with a snapshot
  that does not exist, \<^verbatim>\<open>getDocumentData\<close> fails with the invariant's "No document
  available at <path>/<id>" and returns no value, after exactly one read; and so
  does \<^verbatim>\<open>getDocumentDataInTransaction\<close>, whose read goes through the transaction.
\<close>

theorem required_fetch_not_found:
  "(doc_get client (doc ref documentId) = Inr d \<and> \<not> snap_exists d \<longrightarrow>
      getDocumentData client ref documentId calls =
        (Inl (InvariantFailed (''No document available at '' @ path ref @ ''/'' @ documentId)),
         calls @ [DocGet (doc ref documentId)])) \<and>
   (tx_doc_get client tx (doc ref documentId) = Inr d' \<and> \<not> snap_exists d' \<longrightarrow>
      getDocumentDataInTransaction client tx ref documentId calls =
        (Inl (InvariantFailed (''No document available at '' @ path ref @ ''/'' @ documentId)),
         calls @ [TxDocGet tx (doc ref documentId)]))"
  by (simp add: getDocumentData_result getDocumentDataInTransaction_result)

text \<open>
  C1 at the reference client: the document \<^verbatim>\<open>books/b9\<close> is not stored.
\<close>

theorem required_fetch_not_found_witness:
  "doc_get (memory_client library) (doc books ''b9'') = Inr (snapshot_of library (doc books ''b9'')) \<and>
   tx_doc_get (memory_client library) (Transaction 1) (doc books ''b9'')
     = Inr (snapshot_of library (doc books ''b9'')) \<and>
   \<not> snap_exists (snapshot_of library (doc books ''b9'')) \<and>
   getDocumentData (memory_client library) books ''b9'' [] =
     (Inl (InvariantFailed ''No document available at books/b9''), [DocGet (doc books ''b9'')]) \<and>
   getDocumentDataInTransaction (memory_client library) (Transaction 1) books ''b9'' [] =
     (Inl (InvariantFailed ''No document available at books/b9''),
      [TxDocGet (Transaction 1) (doc books ''b9'')])"
proof -
  let ?d = "snapshot_of library (doc books ''b9'')"
  have plain: "doc_get (memory_client library) (doc books ''b9'') = Inr ?d"
    by (simp add: library_defs)
  have tx: "tx_doc_get (memory_client library) (Transaction 1) (doc books ''b9'') = Inr ?d"
    by (simp add: library_defs)
  have absent: "\<not> snap_exists ?d"
    by (simp add: library_defs)
  have "path books = ''books''"
    by (simp add: books_def)
  with plain tx absent
    required_fetch_not_found [of "memory_client library" books "''b9''" ?d "[]" "Transaction 1" ?d]
  show ?thesis by simp
qed

subsection \<open>Maybe fetch of a missing document\<close>

text \<open>
  C2. For a non-empty document ID, when the client answers the read with a snapshot
  that does not exist, \<^verbatim>\<open>getDocumentDataMaybe\<close> and
  \<^verbatim>\<open>getDocumentDataInTransactionMaybe\<close> return "no value" (\<^verbatim>\<open>undefined\<close>) and do not
  fail; the one request issued is the read.
\<close>

theorem maybe_fetch_absent_no_value:
  "(documentId \<noteq> [] \<and> doc_get client (doc ref documentId) = Inr d \<and> \<not> snap_exists d \<longrightarrow>
      getDocumentDataMaybe client ref (IdString documentId) calls =
        (Inr None, calls @ [DocGet (doc ref documentId)])) \<and>
   (documentId \<noteq> [] \<and> tx_doc_get client tx (doc ref documentId) = Inr d' \<and> \<not> snap_exists d' \<longrightarrow>
      getDocumentDataInTransactionMaybe client tx ref (IdString documentId) calls =
        (Inr None, calls @ [TxDocGet tx (doc ref documentId)]))"
  by (simp add: getDocumentDataMaybe_result getDocumentDataInTransactionMaybe_result)

text \<open>
  C2 at the reference client: the document \<^verbatim>\<open>books/b9\<close> is not stored.
\<close>

theorem maybe_fetch_absent_no_value_witness:
  "''b9'' \<noteq> [] \<and>
   doc_get (memory_client library) (doc books ''b9'') = Inr (snapshot_of library (doc books ''b9'')) \<and>
   tx_doc_get (memory_client library) (Transaction 1) (doc books ''b9'')
     = Inr (snapshot_of library (doc books ''b9'')) \<and>
   \<not> snap_exists (snapshot_of library (doc books ''b9'')) \<and>
   getDocumentDataMaybe (memory_client library) books (IdString ''b9'') [] =
     (Inr None, [DocGet (doc books ''b9'')]) \<and>
   getDocumentDataInTransactionMaybe (memory_client library) (Transaction 1) books (IdString ''b9'') [] =
     (Inr None, [TxDocGet (Transaction 1) (doc books ''b9'')])"
proof -
  let ?d = "snapshot_of library (doc books ''b9'')"
  have plain: "doc_get (memory_client library) (doc books ''b9'') = Inr ?d"
    by (simp add: library_defs)
  have tx: "tx_doc_get (memory_client library) (Transaction 1) (doc books ''b9'') = Inr ?d"
    by (simp add: library_defs)
  have absent: "\<not> snap_exists ?d"
    by (simp add: library_defs)
  from plain tx absent
    maybe_fetch_absent_no_value [of "''b9''" "memory_client library" books ?d "[]" "Transaction 1" ?d]
  show ?thesis by simp
qed

subsection \<open>Maybe fetch without an ID\<close>

text \<open>
  C3. For an absent (\<^verbatim>\<open>undefined\<close>), \<^verbatim>\<open>null\<close> or empty-string ID argument, both
  maybe-fetch accessors return "no value" and the trace of client requests is
  the one they were started with: no request is issued.
\<close>

theorem maybe_falsy_id_no_request:
  "getDocumentDataMaybe client ref IdUndefined calls = (Inr None, calls) \<and>
   getDocumentDataMaybe client ref IdNull calls = (Inr None, calls) \<and>
   getDocumentDataMaybe client ref (IdString []) calls = (Inr None, calls) \<and>
   getDocumentDataInTransactionMaybe client tx ref IdUndefined calls = (Inr None, calls) \<and>
   getDocumentDataInTransactionMaybe client tx ref IdNull calls = (Inr None, calls) \<and>
   getDocumentDataInTransactionMaybe client tx ref (IdString []) calls = (Inr None, calls)"
  by (simp add: getDocumentDataMaybe_def getDocumentDataInTransactionMaybe_def io_return_def)

text \<open>
  C3 at the reference client: an empty-string ID from an empty trace, and a \<^verbatim>\<open>null\<close>
  ID from a trace that already holds a request.
\<close>

theorem maybe_falsy_id_no_request_witness:
  "getDocumentDataMaybe (memory_client library) books (IdString []) [] = (Inr None, []) \<and>
   getDocumentDataInTransactionMaybe (memory_client library) (Transaction 1) books IdNull
     [DocGet (doc books ''b1'')] = (Inr None, [DocGet (doc books ''b1'')])"
  using maybe_falsy_id_no_request [of "memory_client library" books "[]" "Transaction 1"]
    maybe_falsy_id_no_request
      [of "memory_client library" books "[DocGet (doc books ''b1'')]" "Transaction 1"]
  by simp

subsection \<open>Required and maybe fetch of an existing document\<close>

text \<open>
  C4. For a non-empty document ID, when the client answers the read with a snapshot
  that exists, \<^verbatim>\<open>getDocumentData\<close> returns the snapshot's data, and
  \<^verbatim>\<open>getDocumentDataMaybe\<close> returns the same result and leaves the same trace; the
  transactional pair agrees in the same way.
\<close>

theorem required_and_maybe_agree_on_existing:
  "(documentId \<noteq> [] \<and> doc_get client (doc ref documentId) = Inr d \<and> snap_exists d \<longrightarrow>
      getDocumentData client ref documentId calls =
        (Inr (snap_data d), calls @ [DocGet (doc ref documentId)]) \<and>
      getDocumentDataMaybe client ref (IdString documentId) calls =
        getDocumentData client ref documentId calls) \<and>
   (documentId \<noteq> [] \<and> tx_doc_get client tx (doc ref documentId) = Inr d' \<and> snap_exists d' \<longrightarrow>
      getDocumentDataInTransaction client tx ref documentId calls =
        (Inr (snap_data d'), calls @ [TxDocGet tx (doc ref documentId)]) \<and>
      getDocumentDataInTransactionMaybe client tx ref (IdString documentId) calls =
        getDocumentDataInTransaction client tx ref documentId calls)"
  by (simp add: getDocumentData_result getDocumentDataMaybe_result
      getDocumentDataInTransaction_result getDocumentDataInTransactionMaybe_result)

text \<open>
  C4 at the reference client: the stored document \<^verbatim>\<open>books/b1\<close>.
\<close>

theorem required_and_maybe_agree_on_existing_witness:
  "''b1'' \<noteq> [] \<and>
   doc_get (memory_client library) (doc books ''b1'') = Inr (snapshot_of library (doc books ''b1'')) \<and>
   tx_doc_get (memory_client library) (Transaction 1) (doc books ''b1'')
     = Inr (snapshot_of library (doc books ''b1'')) \<and>
   snap_exists (snapshot_of library (doc books ''b1'')) \<and>
   getDocumentData (memory_client library) books ''b1'' [] =
     (Inr (Some [(''author'', ''Anon''), (''year'', ''1500'')]), [DocGet (doc books ''b1'')]) \<and>
   getDocumentDataMaybe (memory_client library) books (IdString ''b1'') [] =
     getDocumentData (memory_client library) books ''b1'' [] \<and>
   getDocumentDataInTransaction (memory_client library) (Transaction 1) books ''b1'' [] =
     (Inr (Some [(''author'', ''Anon''), (''year'', ''1500'')]),
      [TxDocGet (Transaction 1) (doc books ''b1'')]) \<and>
   getDocumentDataInTransactionMaybe (memory_client library) (Transaction 1) books (IdString ''b1'') [] =
     getDocumentDataInTransaction (memory_client library) (Transaction 1) books ''b1'' []"
proof -
  let ?d = "snapshot_of library (doc books ''b1'')"
  have plain: "doc_get (memory_client library) (doc books ''b1'') = Inr ?d"
    by (simp add: library_defs)
  have tx: "tx_doc_get (memory_client library) (Transaction 1) (doc books ''b1'') = Inr ?d"
    by (simp add: library_defs)
  have present: "snap_exists ?d"
    by (simp add: library_defs)
  have data: "snap_data ?d = Some [(''author'', ''Anon''), (''year'', ''1500'')]"
    by (simp add: library_defs)
  from plain tx present data
    required_and_maybe_agree_on_existing
      [of "''b1''" "memory_client library" books ?d "[]" "Transaction 1" ?d]
  show ?thesis by simp
qed

subsection \<open>The first document of a query\<close>

text \<open>
  C5. \<^verbatim>\<open>getFirstDocument\<close> issues one read, of the final query capped with
  \<^verbatim>\<open>limit(1)\<close>. Let \<open>matches\<close> be the documents the query matches, in query order,
  so that the client answers the capped query with the first of them, if any
  (\<open>take 1 matches\<close>). When there is none the result is "no value" and not a
  failure; otherwise it is the one wrapper made of the first match.
\<close>

theorem getFirstDocument_first_or_none:
  assumes "query_get client (Limit (finalQuery (queryFn ref) options) 1) = Inr snapshot"
    and "docs snapshot = take 1 matches"
  shows "getFirstDocument client ref queryFn options calls =
     (if matches = [] then Inr None else Inr (Some (makeMutableDocument (hd matches))),
      calls @ [QueryGet (Limit (finalQuery (queryFn ref) options) 1)])"
proof (cases matches)
  case Nil
  with assms show ?thesis
    by (simp add: getFirstDocument_result)
next
  case (Cons d rest)
  with assms have "docs snapshot = [d]"
    by simp
  with assms(1) Cons show ?thesis
    by (simp add: getFirstDocument_result)
qed

text \<open>
  C5 at the reference client: the whole collection, whose first document is
  \<^verbatim>\<open>books/b1\<close>, and a filter that no document passes.
\<close>

theorem getFirstDocument_first_or_none_witness:
  "query_get (memory_client library) (Limit (finalQuery (Coll books) \<lparr>select = None\<rparr>) 1) =
     Inr \<lparr>docs = [snapshot_of library (doc books ''b1'')]\<rparr> \<and>
   run_query library (Coll books) =
     [snapshot_of library (doc books ''b1''), snapshot_of library (doc books ''b2'')] \<and>
   getFirstDocument (memory_client library) books Coll \<lparr>select = None\<rparr> [] =
     (Inr (Some (makeMutableDocument (snapshot_of library (doc books ''b1'')))),
      [QueryGet (Limit (Coll books) 1)]) \<and>
   query_get (memory_client library)
       (Limit (finalQuery (Where (Coll books) ''author'' ''Nobody'') \<lparr>select = None\<rparr>) 1) =
     Inr \<lparr>docs = []\<rparr> \<and>
   run_query library (Where (Coll books) ''author'' ''Nobody'') = [] \<and>
   getFirstDocument (memory_client library) books (\<lambda>r. Where (Coll r) ''author'' ''Nobody'')
       \<lparr>select = None\<rparr> [] =
     (Inr None, [QueryGet (Limit (Where (Coll books) ''author'' ''Nobody'') 1)])"
proof -
  let ?b1 = "snapshot_of library (doc books ''b1'')"
  let ?b2 = "snapshot_of library (doc books ''b2'')"
  let ?nobody = "\<lambda>r. Where (Coll r) ''author'' ''Nobody''"
  have plain: "finalQuery q \<lparr>select = None\<rparr> = q" for q
    by (simp add: finalQuery_def)
  have all: "run_query library (Coll books) = [?b1, ?b2]"
    by (simp add: library_defs)
  have none: "run_query library (Where (Coll books) ''author'' ''Nobody'') = []"
    by (simp add: library_defs)
  have answer: "query_get (memory_client library) q = Inr \<lparr>docs = run_query library q\<rparr>" for q
    by (simp add: memory_client_def)
  have "run_query library (Limit (Coll books) 1) = [?b1]"
    unfolding run_query.simps(4) all by simp
  then have capped: "query_get (memory_client library)
       (Limit (finalQuery (Coll books) \<lparr>select = None\<rparr>) 1) = Inr \<lparr>docs = [?b1]\<rparr>"
    by (simp only: plain answer)
  have "run_query library (Limit (Where (Coll books) ''author'' ''Nobody'') 1) = []"
    unfolding run_query.simps(4) none by simp
  then have capped_none: "query_get (memory_client library)
       (Limit (finalQuery (?nobody books) \<lparr>select = None\<rparr>) 1) = Inr \<lparr>docs = []\<rparr>"
    by (simp only: plain answer)
  have first_only: "docs \<lparr>docs = [?b1]\<rparr> = take 1 [?b1, ?b2]"
    by simp
  have nothing: "docs (\<lparr>docs = []\<rparr> :: fields QuerySnapshot) = take 1 []"
    by simp
  have first: "getFirstDocument (memory_client library) books Coll \<lparr>select = None\<rparr> [] =
     (Inr (Some (makeMutableDocument ?b1)), [QueryGet (Limit (Coll books) 1)])"
    using getFirstDocument_first_or_none
      [where queryFn = Coll and ref = books, OF capped first_only, of "[]"]
    by (simp add: plain)
  have zero: "getFirstDocument (memory_client library) books ?nobody \<lparr>select = None\<rparr> [] =
     (Inr None, [QueryGet (Limit (Where (Coll books) ''author'' ''Nobody'') 1)])"
    using getFirstDocument_first_or_none
      [where queryFn = ?nobody and ref = books, OF capped_none nothing, of "[]"]
    by (simp add: plain)
  show ?thesis
    using capped all first capped_none none zero
    by (intro conjI) assumption+
qed

subsection \<open>Projected fetch\<close>

text \<open>
  C6, as stated, fails. With \<^verbatim>\<open>select: ["author", "title"]\<close> the first book, which
  has no \<^verbatim>\<open>title\<close>, comes back with the single key \<^verbatim>\<open>author\<close>: the keys of the
  returned data are not the keys selected.
\<close>

theorem projected_fetch_keys_counterexample:
  "getFirstDocument (memory_client library) books Coll \<lparr>select = Some [''author'', ''title'']\<rparr> [] =
     (Inr (Some (makeMutableDocument
        \<lparr>snap_ref = doc books ''b1'', snap_id = ''b1'', snap_exists = True,
         snap_data = Some [(''author'', ''Anon'')]\<rparr>)),
      [QueryGet (Limit (Select (Coll books) [''author'', ''title'']) 1)]) \<and>
   returned_data
     (getFirstDocument (memory_client library) books Coll
        \<lparr>select = Some [''author'', ''title'']\<rparr> []) = Some [(''author'', ''Anon'')] \<and>
   keys [(''author'', ''Anon'')] \<noteq> set [''author'', ''title'']"
  by (simp add: getFirstDocument_result finalQuery_def library_defs returned_data_def
      makeMutableDocument_fields keys_def)

text \<open>
  C6, amended. A fetch with \<^verbatim>\<open>options.select = S\<close> issues one read, of
  \<^verbatim>\<open>queryFn(ref).select(...S).limit(1)\<close>: the field selection sent to the server is
  exactly \<open>S\<close>. The data returned is the data of the first document of the answer,
  as the client delivered it; nothing checks its fields. When the client delivers
  the stored fields restricted to \<open>S\<close>, the keys returned are the keys of \<open>S\<close> that
  the stored document has: none outside \<open>S\<close>, and exactly \<open>S\<close> when the document
  has every field of \<open>S\<close>.
\<close>

theorem projected_fetch_keys:
  assumes "query_get client (Limit (Select (queryFn ref) S) 1) = Inr snapshot"
    and "docs snapshot = d # rest"
    and "snap_data d = Some (project S stored)"
  shows "getFirstDocument client ref queryFn \<lparr>select = Some S\<rparr> calls =
       (Inr (Some (makeMutableDocument d)), calls @ [QueryGet (Limit (Select (queryFn ref) S) 1)]) \<and>
     returned_data (getFirstDocument client ref queryFn \<lparr>select = Some S\<rparr> calls) =
       Some (project S stored) \<and>
     keys (project S stored) = keys stored \<inter> set S \<and>
     (set S \<subseteq> keys stored \<longrightarrow> keys (project S stored) = set S)"
  using assms
  by (auto simp: getFirstDocument_result finalQuery_def makeMutableDocument_fields keys_project
      returned_data_def)

text \<open>
  C6, amended, at the reference client: \<^verbatim>\<open>select: ["author", "year"]\<close>, both of which
  the first book has.
\<close>

theorem projected_fetch_keys_witness:
  "query_get (memory_client library) (Limit (Select (Coll books) [''author'', ''year'']) 1) =
     Inr \<lparr>docs = [projected [''author'', ''year''] (snapshot_of library (doc books ''b1''))]\<rparr> \<and>
   snap_data (projected [''author'', ''year''] (snapshot_of library (doc books ''b1''))) =
     Some (project [''author'', ''year''] [(''author'', ''Anon''), (''year'', ''1500'')]) \<and>
   set [''author'', ''year''] \<subseteq> keys [(''author'', ''Anon''), (''year'', ''1500'')] \<and>
   getFirstDocument (memory_client library) books Coll \<lparr>select = Some [''author'', ''year'']\<rparr> [] =
     (Inr (Some (makeMutableDocument
        (projected [''author'', ''year''] (snapshot_of library (doc books ''b1''))))),
      [QueryGet (Limit (Select (Coll books) [''author'', ''year'']) 1)]) \<and>
   returned_data
     (getFirstDocument (memory_client library) books Coll
        \<lparr>select = Some [''author'', ''year'']\<rparr> []) =
     Some (project [''author'', ''year''] [(''author'', ''Anon''), (''year'', ''1500'')]) \<and>
   keys (project [''author'', ''year''] [(''author'', ''Anon''), (''year'', ''1500'')]) =
     set [''author'', ''year'']"
proof -
  let ?S = "[''author'', ''year'']"
  let ?stored = "[(''author'', ''Anon''), (''year'', ''1500'')]"
  let ?d = "projected ?S (snapshot_of library (doc books ''b1''))"
  have answer: "query_get (memory_client library) (Limit (Select (Coll books) ?S) 1) =
     Inr \<lparr>docs = [?d]\<rparr>"
    by (simp add: library_defs)
  have delivered: "snap_data ?d = Some (project ?S ?stored)"
    by (simp add: library_defs)
  have has_all: "set ?S \<subseteq> keys ?stored"
    by (simp add: keys_def)
  have only: "docs \<lparr>docs = [?d]\<rparr> = ?d # []"
    by simp
  note fetched = projected_fetch_keys
    [where queryFn = Coll and ref = books, OF answer only delivered, of "[]"]
  note returned = fetched [THEN conjunct1, unfolded append_Nil]
  note data = fetched [THEN conjunct2, THEN conjunct1]
  note exact = fetched [THEN conjunct2, THEN conjunct2, THEN conjunct2, rule_format, OF has_all]
  show ?thesis
    using answer delivered has_all returned data exact
    by (intro conjI) assumption+
qed

subsection \<open>Transactional accessors\<close>

text \<open>
  C7. When the client answers the read through the transaction as it answers the
  plain read (the same snapshot, or the same failure), \<^verbatim>\<open>getDocumentDataInTransaction\<close>
  returns what \<^verbatim>\<open>getDocumentData\<close> returns, the not-found failure included, and
  \<^verbatim>\<open>getDocumentDataInTransactionMaybe\<close> returns what \<^verbatim>\<open>getDocumentDataMaybe\<close> returns,
  for every ID argument. The traces differ in the read alone: the transactional
  accessors issue \<^verbatim>\<open>tx.get(ref.doc(id))\<close> where the plain ones issue
  \<^verbatim>\<open>ref.doc(id).get()\<close>.
\<close>

theorem transactional_agree_with_plain:
  "(tx_doc_get client tx (doc ref documentId) = doc_get client (doc ref documentId) \<longrightarrow>
      fst (getDocumentDataInTransaction client tx ref documentId calls) =
        fst (getDocumentData client ref documentId calls) \<and>
      snd (getDocumentDataInTransaction client tx ref documentId calls) =
        calls @ [TxDocGet tx (doc ref documentId)] \<and>
      snd (getDocumentData client ref documentId calls) =
        calls @ [DocGet (doc ref documentId)]) \<and>
   ((\<forall>s. truthy maybeId = Some s \<longrightarrow> tx_doc_get client tx (doc ref s) = doc_get client (doc ref s)) \<longrightarrow>
      fst (getDocumentDataInTransactionMaybe client tx ref maybeId calls) =
        fst (getDocumentDataMaybe client ref maybeId calls) \<and>
      snd (getDocumentDataInTransactionMaybe client tx ref maybeId calls) =
        (case truthy maybeId of None \<Rightarrow> calls | Some s \<Rightarrow> calls @ [TxDocGet tx (doc ref s)]) \<and>
      snd (getDocumentDataMaybe client ref maybeId calls) =
        (case truthy maybeId of None \<Rightarrow> calls | Some s \<Rightarrow> calls @ [DocGet (doc ref s)]))"
  by (simp add: getDocumentData_result getDocumentDataMaybe_result
      getDocumentDataInTransaction_result getDocumentDataInTransactionMaybe_result
      split: option.splits)

text \<open>
  C7 at the reference client, which answers both kinds of read from the same store:
  the missing \<^verbatim>\<open>books/b9\<close> for the required pair, the stored \<^verbatim>\<open>books/b2\<close> for the
  maybe pair.
\<close>

theorem transactional_agree_with_plain_witness:
  "tx_doc_get (memory_client library) (Transaction 1) (doc books ''b9'') =
     doc_get (memory_client library) (doc books ''b9'') \<and>
   fst (getDocumentDataInTransaction (memory_client library) (Transaction 1) books ''b9'' []) =
     Inl (InvariantFailed ''No document available at books/b9'') \<and>
   fst (getDocumentData (memory_client library) books ''b9'' []) =
     Inl (InvariantFailed ''No document available at books/b9'') \<and>
   truthy (IdString ''b2'') = Some ''b2'' \<and>
   tx_doc_get (memory_client library) (Transaction 1) (doc books ''b2'') =
     doc_get (memory_client library) (doc books ''b2'') \<and>
   fst (getDocumentDataInTransactionMaybe (memory_client library) (Transaction 1) books
          (IdString ''b2'') []) =
     fst (getDocumentDataMaybe (memory_client library) books (IdString ''b2'') []) \<and>
   snd (getDocumentDataInTransactionMaybe (memory_client library) (Transaction 1) books
          (IdString ''b2'') []) = [TxDocGet (Transaction 1) (doc books ''b2'')] \<and>
   snd (getDocumentDataMaybe (memory_client library) books (IdString ''b2'') []) =
     [DocGet (doc books ''b2'')]"
proof -
  have same: "tx_doc_get (memory_client library) (Transaction 1) r = doc_get (memory_client library) r"
    for r by (simp add: memory_client_def)
  have plain: "fst (getDocumentData (memory_client library) books ''b9'' []) =
     Inl (InvariantFailed ''No document available at books/b9'')"
    by (simp add: getDocumentData_result library_defs)
  from same plain
    transactional_agree_with_plain
      [of "memory_client library" "Transaction 1" books "''b9''" "[]" "IdString ''b2''"]
  show ?thesis by simp
qed

subsection \<open>Failures of the client\<close>

text \<open>
  C8. When the client fails the read an accessor issues, the accessor fails with
  that same error: the four data accessors (the maybe variants for an ID that
  passes the truthiness test, so that a read is issued at all) and the two
  first-document accessors.
\<close>

theorem client_failure_propagates:
  "(doc_get client (doc ref documentId) = Inl e \<longrightarrow>
      fst (getDocumentData client ref documentId calls) = Inl (ClientError e)) \<and>
   (truthy maybeId = Some documentId \<and> doc_get client (doc ref documentId) = Inl e \<longrightarrow>
      fst (getDocumentDataMaybe client ref maybeId calls) = Inl (ClientError e)) \<and>
   (tx_doc_get client tx (doc ref documentId) = Inl e \<longrightarrow>
      fst (getDocumentDataInTransaction client tx ref documentId calls) = Inl (ClientError e)) \<and>
   (truthy maybeId = Some documentId \<and> tx_doc_get client tx (doc ref documentId) = Inl e \<longrightarrow>
      fst (getDocumentDataInTransactionMaybe client tx ref maybeId calls) = Inl (ClientError e)) \<and>
   (query_get client (Limit (finalQuery (queryFn ref) options) 1) = Inl e \<longrightarrow>
      fst (getFirstDocument client ref queryFn options calls) = Inl (ClientError e)) \<and>
   (tx_query_get client tx (Limit (finalQuery (groupFn groupRef) options) 1) = Inl e \<longrightarrow>
      fst (getFirstDocumentInTransaction client tx groupRef groupFn options calls) =
        Inl (ClientError e))"
  by (simp add: getDocumentData_result getDocumentDataMaybe_result
      getDocumentDataInTransaction_result getDocumentDataInTransactionMaybe_result
      getFirstDocument_result getFirstDocumentInTransaction_result)

text \<open>
  C8 at a client that fails every call with \<^verbatim>\<open>UNAVAILABLE\<close>, and at the reference
  client, which rejects the empty document ID.
\<close>

theorem client_failure_propagates_witness:
  "doc_get (failing_client ''UNAVAILABLE'' :: (string, fields) Client) (doc books ''b1'') = Inl ''UNAVAILABLE'' \<and>
   fst (getDocumentData (failing_client ''UNAVAILABLE'' :: (string, fields) Client) books ''b1'' [])
     = Inl (ClientError ''UNAVAILABLE'') \<and>
   truthy (IdString ''b1'') = Some ''b1'' \<and>
   fst (getDocumentDataMaybe (failing_client ''UNAVAILABLE'' :: (string, fields) Client) books
          (IdString ''b1'') []) = Inl (ClientError ''UNAVAILABLE'') \<and>
   fst (getDocumentDataInTransaction (failing_client ''UNAVAILABLE'' :: (string, fields) Client)
          (Transaction 1) books ''b1'' []) = Inl (ClientError ''UNAVAILABLE'') \<and>
   fst (getDocumentDataInTransactionMaybe (failing_client ''UNAVAILABLE'' :: (string, fields) Client)
          (Transaction 1) books (IdString ''b1'') []) = Inl (ClientError ''UNAVAILABLE'') \<and>
   fst (getFirstDocument (failing_client ''UNAVAILABLE'' :: (string, fields) Client) books Coll
          \<lparr>select = None\<rparr> []) = Inl (ClientError ''UNAVAILABLE'') \<and>
   fst (getFirstDocumentInTransaction (failing_client ''UNAVAILABLE'' :: (string, fields) Client)
          (Transaction 1) books Coll \<lparr>select = None\<rparr> []) = Inl (ClientError ''UNAVAILABLE'') \<and>
   fst (getDocumentData (memory_client library) books [] []) = Inl (ClientError ''INVALID_ARGUMENT'')"
proof -
  let ?c = "failing_client ''UNAVAILABLE'' :: (string, fields) Client"
  have fails: "doc_get ?c r = Inl ''UNAVAILABLE''" "tx_doc_get ?c t r = Inl ''UNAVAILABLE''"
    "query_get ?c q = Inl ''UNAVAILABLE''" "tx_query_get ?c t q = Inl ''UNAVAILABLE''"
    for r t q by (simp_all add: failing_client_def)
  have invalid: "doc_get (memory_client library) (doc books []) = Inl ''INVALID_ARGUMENT''"
    by (simp add: library_defs)
  have rejected:
    "fst (getDocumentData (memory_client library) books [] []) = Inl (ClientError ''INVALID_ARGUMENT'')"
    using invalid
      client_failure_propagates
        [where client = "memory_client library" and ref = books and documentId = "[]"
           and e = "''INVALID_ARGUMENT''" and calls = "[]", THEN conjunct1]
    by simp
  from fails rejected
    client_failure_propagates
      [where client = ?c and ref = books and documentId = "''b1''" and e = "''UNAVAILABLE''"
         and calls = "[]" and maybeId = "IdString ''b1''" and tx = "Transaction 1"
         and queryFn = Coll and options = "\<lparr>select = None\<rparr>"
         and groupRef = books and groupFn = Coll]
  show ?thesis by simp
qed

subsection \<open>Update inside a transaction\<close>

text \<open>
  C9. \<^verbatim>\<open>update\<close> (and \<^verbatim>\<open>updateWithPartial\<close>) of a wrapper bound to a transaction issues
  one request, \<^verbatim>\<open>tx.update(ref, data)\<close> on the bound transaction and the wrapper's
  document, and returns that transaction unless the client rejects the arguments.
  It adds no direct write to the trace. When a staged write is applied is the
  client's contract for transactions; the wrapper hands the write to the
  transaction and to nothing else.
\<close>

theorem transaction_update_is_staged:
  "ft_update (makeMutableDocumentInTransaction d tx) patch client calls =
     (case tx_update client tx (snap_ref d) patch of
        None \<Rightarrow> Inr tx
      | Some e \<Rightarrow> Inl (ClientError e),
      calls @ [TxUpdate tx (snap_ref d) patch]) \<and>
   ft_updateWithPartial (makeMutableDocumentInTransaction d tx) patch client calls =
     ft_update (makeMutableDocumentInTransaction d tx) patch client calls \<and>
   filter is_direct_write
       (snd (ft_update (makeMutableDocumentInTransaction d tx) patch client calls)) =
     filter is_direct_write calls"
  by (simp add: makeMutableDocumentInTransaction_def tx_update_call_def await_def
      split: option.splits)

text \<open>
  C9 at the reference client: an update of \<^verbatim>\<open>books/b1\<close> staged after a transactional
  read; the trace holds no direct write.
\<close>

theorem transaction_update_is_staged_witness:
  "ft_update (makeMutableDocumentInTransaction (snapshot_of library (doc books ''b1'')) (Transaction 1))
       [(''year'', ''1501'')] (memory_client library) [TxDocGet (Transaction 1) (doc books ''b1'')] =
     (Inr (Transaction 1),
      [TxDocGet (Transaction 1) (doc books ''b1''),
       TxUpdate (Transaction 1) (doc books ''b1'') [(''year'', ''1501'')]]) \<and>
   filter is_direct_write
     [TxDocGet (Transaction 1) (doc books ''b1''),
      TxUpdate (Transaction 1) (doc books ''b1'') [(''year'', ''1501'')]] = []"
proof -
  have accepted: "tx_update (memory_client library) t r p = None" for t r p
    by (simp add: memory_client_def)
  have at: "snap_ref (snapshot_of library (doc books ''b1'')) = doc books ''b1''"
    by (simp add: snapshot_of_def)
  from accepted at
    transaction_update_is_staged
      [where d = "snapshot_of library (doc books ''b1'')" and tx = "Transaction 1"
         and patch = "[(''year'', ''1501'')]" and client = "memory_client library"
         and calls = "[TxDocGet (Transaction 1) (doc books ''b1'')]"]
  show ?thesis by simp
qed

subsection \<open>Plain objects\<close>

text \<open>
  C10. \<^verbatim>\<open>isPlainObject\<close> never throws, and answers true exactly for a value whose
  \<^verbatim>\<open>typeof\<close> is \<^verbatim>\<open>"object"\<close>, that is not \<^verbatim>\<open>null\<close>, and whose prototype is
  \<^verbatim>\<open>Object.prototype\<close> or \<^verbatim>\<open>null\<close>. So it answers false for an array, a function and
  an instance of a class, and true for \<^verbatim>\<open>Object.create(null)\<close> and an object literal.
\<close>

theorem isPlainObject_characterisation:
  "isPlainObject v =
     Inr (typeof v = ''object'' \<and> v \<noteq> JNull \<and>
          (getPrototypeOf v = Inr (Some ObjectPrototype) \<or> getPrototypeOf v = Inr None)) \<and>
   isPlainObject array_literal = Inr False \<and>
   isPlainObject (JFunction p) = Inr False \<and>
   isPlainObject (new_instance c) = Inr False \<and>
   isPlainObject (Object_create None) = Inr True \<and>
   isPlainObject object_literal = Inr True"
  by (cases v)
    (simp_all add: isPlainObject_def array_literal_def new_instance_def Object_create_def
      object_literal_def)

text \<open>
  C10 at an object literal, an object without prototype, \<^verbatim>\<open>null\<close>, a string, an
  array, a function and an instance of a class \<^verbatim>\<open>Book\<close>.
\<close>

theorem isPlainObject_characterisation_witness:
  "isPlainObject (JObject (Some ObjectPrototype)) = Inr True \<and>
   isPlainObject (JObject None) = Inr True \<and>
   isPlainObject JNull = Inr False \<and>
   isPlainObject (JString ''{}'') = Inr False \<and>
   isPlainObject (JObject (Some ArrayPrototype)) = Inr False \<and>
   isPlainObject (JFunction None) = Inr False \<and>
   isPlainObject (JObject (Some (ClassPrototype ''Book''))) = Inr False"
  using isPlainObject_characterisation [of "JObject (Some ObjectPrototype)" None "''Book''"]
    isPlainObject_characterisation [of "JObject None" None "''Book''"]
    isPlainObject_characterisation [of JNull None "''Book''"]
    isPlainObject_characterisation [of "JString ''{}''" None "''Book''"]
  by (simp add: array_literal_def new_instance_def)

end
